theory Spec2Isabelle
  imports Main "HOL-Library.AList"
begin

section \<open>Canonical enumerations\<close>

text \<open>
  The canonical enumerations live in \<^verbatim>\<open>parkapi_sources/models/enums.py\<close>. The
  constructors below are the members that \<^verbatim>\<open>radvis_bw/models.py\<close> names.
\<close>

datatype ParkingSiteType =
  STANDS | LOCKERS | WALL_LOOPS | TWO_TIER | BUILDING | SHED | OTHER | LOCKBOX

datatype PurposeType = BIKE | ITEM

text \<open>
  Modelled from the spec: the enumeration \<^verbatim>\<open>SupervisionType\<close> is declared outside the
  files at hand. The source names its members \<^verbatim>\<open>NO\<close> and \<^verbatim>\<open>VIDEO\<close>; the spec lists the
  supervision levels as "none, video, unknown", which gives the third member.
\<close>

datatype SupervisionType = SUPERVISION_NO | SUPERVISION_VIDEO | SUPERVISION_UNKNOWN

section \<open>Source enumerations of RadVIS and their mappings\<close>

datatype RadvisSupervisionType = KEINE | UNBEKANNT | VIDEO

datatype RadvisParkingSiteType =
  ANLEHNBUEGEL | FAHRRADBOX | VORDERRADANSCHLUSS | SONSTIGE
  | DOPPELSTOECKIG | FAHRRADPARKHAUS | SAMMELANLAGE

text \<open>
  Both mappings are dictionary literals followed by \<^verbatim>\<open>.get\<close>. The literal is an
  association list in the order of the source; \<^verbatim>\<open>d.get(k)\<close> is \<open>map_of d k\<close> (Python's
  \<^verbatim>\<open>None\<close> is \<open>None\<close>), and \<^verbatim>\<open>d.get(k, v)\<close> falls back to \<open>v\<close>.
\<close>

definition dict_get_default :: "('k \<times> 'v) list \<Rightarrow> 'k \<Rightarrow> 'v \<Rightarrow> 'v" where
  "dict_get_default d k v = (case map_of d k of None \<Rightarrow> v | Some w \<Rightarrow> w)"

definition to_supervision_type :: "RadvisSupervisionType \<Rightarrow> SupervisionType option" where
  "to_supervision_type self =
     map_of [(KEINE, SUPERVISION_NO), (VIDEO, SUPERVISION_VIDEO)] self"

definition to_parking_site_type :: "RadvisParkingSiteType \<Rightarrow> ParkingSiteType" where
  "to_parking_site_type self =
     dict_get_default
       [(ANLEHNBUEGEL, STANDS),
        (FAHRRADBOX, LOCKERS),
        (VORDERRADANSCHLUSS, WALL_LOOPS),
        (DOPPELSTOECKIG, TWO_TIER),
        (FAHRRADPARKHAUS, BUILDING),
        (SAMMELANLAGE, SHED)]
       self OTHER"

datatype OrganizationType = GEMEINDE | KREIS

datatype LocationType =
  OEFFENTLICHE_EINRICHTUNG | BIKE_AND_RIDE | LOCATION_UNBEKANNT | SCHULE | STRASSENRAUM
  | SONSTIGES

datatype StatusType = AKTIV

text \<open>
  The member \<^verbatim>\<open>UNBEKANNT\<close> of \<^verbatim>\<open>LocationType\<close> is \<open>LOCATION_UNBEKANNT\<close> here, the
  name being taken by the supervision type.
  Strings are byte lists, so the two labels with a letter outside ASCII are written in
  UTF-8: \<^verbatim>\<open>0xC3 0x96\<close> is the capital O with diaeresis, \<^verbatim>\<open>0xC3 0x9F\<close> the sharp s.
\<close>

definition to_related_location :: "LocationType \<Rightarrow> string option" where
  "to_related_location self =
     map_of
       [(OEFFENTLICHE_EINRICHTUNG, [CHR 0xC3, CHR 0x96] @ ''ffentliche Einrichtung''),
        (BIKE_AND_RIDE, ''Bike and Ride''),
        (SCHULE, ''Schule''),
        (STRASSENRAUM, ''Stra'' @ [CHR 0xC3, CHR 0x9F] @ ''enraum'')]
       self"

section \<open>Python values and dictionaries\<close>

type_synonym datetime = int

text \<open>
  The values that the dictionaries of \<^verbatim>\<open>to_dicts\<close> hold. A dictionary is an
  association list in insertion order; \<open>AList.update\<close> is Python's item assignment (the
  value is replaced in place when the key exists, the pair is appended otherwise).
\<close>

datatype pyval =
  PNone
  | PBool bool
  | PInt int
  | PStr string
  | PStrList "string list"
  | PParkingSiteType ParkingSiteType
  | PPurposeType PurposeType
  | PSupervisionType SupervisionType
  | PDatetime datetime

type_synonym pydict = "(string \<times> pyval) list"

definition dict_literal :: "(string \<times> pyval) list \<Rightarrow> pydict" where
  "dict_literal kvs = fold (\<lambda>(k, v) d. AList.update k v d) kvs []"

definition optional :: "('a \<Rightarrow> pyval) \<Rightarrow> 'a option \<Rightarrow> pyval" where
  "optional f x = (case x of None \<Rightarrow> PNone | Some v \<Rightarrow> f v)"

text \<open>Python's \<^verbatim>\<open>str\<close> of an integer: decimal digits, with a minus sign below zero.\<close>

fun str_nat :: "nat \<Rightarrow> string" where
  "str_nat n =
     (if n < 10 then [''0123456789'' ! n]
      else str_nat (n div 10) @ [''0123456789'' ! (n mod 10)])"

definition str_int :: "int \<Rightarrow> string" where
  "str_int i = (if i < 0 then CHR ''-'' # str_nat (nat (- i)) else str_nat (nat i))"

text \<open>Truthiness of an optional string and of an optional integer.\<close>

definition truthy_str :: "string option \<Rightarrow> bool" where
  "truthy_str s = (case s of None \<Rightarrow> False | Some v \<Rightarrow> v \<noteq> [])"

definition truthy_int :: "int option \<Rightarrow> bool" where
  "truthy_int i = (case i of None \<Rightarrow> False | Some v \<Rightarrow> v \<noteq> 0)"

section \<open>RadVIS feature properties and their mapping\<close>

record RadvisFeaturePropertiesInput =
  id' :: int
  betreiber :: string
  quell_system :: string
  externe_id :: "string option"
  zustaendig :: "string option"
  zustaendig_orga_typ :: "OrganizationType option"
  anzahl_stellplaetze :: int
  anzahl_schliessfaecher :: "int option"
  anzahl_lademoeglichkeiten :: "int option"
  ueberwacht :: RadvisSupervisionType
  abstellanlagen_ort :: LocationType
  groessenklasse :: "string option"
  stellplatzart :: RadvisParkingSiteType
  ueberdacht :: bool
  gebuehren_pro_tag :: "int option"
  gebuehren_pro_monat :: "int option"
  gebuehren_pro_jahr :: "int option"
  beschreibung :: "string option"
  weitere_information :: "string option"
  status :: StatusType

text \<open>
  \<^verbatim>\<open>description.replace('\r', '').replace('\n', ' ')\<close>: carriage returns are dropped,
  then every line feed becomes a blank.
\<close>

definition replace_newlines :: "string \<Rightarrow> string" where
  "replace_newlines s =
     map (\<lambda>c. if c = CHR 0x0A then CHR '' '' else c) (filter (\<lambda>c. c \<noteq> CHR 0x0D) s)"

definition description_of :: "RadvisFeaturePropertiesInput \<Rightarrow> string option" where
  "description_of self =
     (let description =
        (if truthy_str (beschreibung self) \<and> truthy_str (weitere_information self)
         then Some (the (beschreibung self) @ '' '' @ the (weitere_information self))
         else if truthy_str (beschreibung self) then beschreibung self
         else if truthy_str (weitere_information self) then weitere_information self
         else None)
      in map_option replace_newlines description)"

text \<open>
  \<^verbatim>\<open>base_data\<close>. The clock is read once, here; the value read is the parameter
  \<open>now\<close>.
\<close>

definition base_data :: "RadvisFeaturePropertiesInput \<Rightarrow> datetime \<Rightarrow> pydict" where
  "base_data self now =
     dict_literal
       [(''operator_name'', PStr (betreiber self)),
        (''description'', optional PStr (description_of self)),
        (''has_realtime_data'', PBool False),
        (''is_covered'', PBool (ueberdacht self)),
        (''related_location'', optional PStr (to_related_location (abstellanlagen_ort self))),
        (''supervision_type'', optional PSupervisionType (to_supervision_type (ueberwacht self))),
        (''tags'',
           PStrList (if truthy_str (groessenklasse self)
                     then [''BW_SIZE_'' @ the (groessenklasse self)] else [])),
        (''static_data_updated_at'', PDatetime now)]"

definition to_dicts :: "RadvisFeaturePropertiesInput \<Rightarrow> datetime \<Rightarrow> pydict list" where
  "to_dicts self now =
     (let results =
        [dict_literal
           ([(''uid'', PStr (str_int (id' self))),
             (''name'', PStr ''Abstellanlage''),
             (''type'', PParkingSiteType (to_parking_site_type (stellplatzart self))),
             (''capacity'', PInt (anzahl_stellplaetze self)),
             (''capacity_charging'', optional PInt (anzahl_lademoeglichkeiten self)),
             (''purpose'', PPurposeType BIKE)]
            @ base_data self now)]
      in if truthy_int (anzahl_schliessfaecher self)
         then [AList.update ''group_uid'' (PStr (str_int (id' self))) (results ! 0)]
              @ [dict_literal
                   ([(''uid'', PStr (str_int (id' self) @ ''-lockbox'')),
                     (''group_uid'', PStr (str_int (id' self))),
                     (''name'', PStr ''Schliessfach''),
                     (''type'', PParkingSiteType LOCKBOX),
                     (''capacity'', PInt (the (anzahl_schliessfaecher self))),
                     (''purpose'', PPurposeType ITEM)]
                    @ base_data self now)]
         else results)"

text \<open>
  The number of ancillary facilities that a record reports: one when the locker count is
  truthy (neither \<^verbatim>\<open>None\<close> nor zero), none otherwise. \<open>base_keys\<close> are the keys of
  \<^verbatim>\<open>base_data\<close>.
\<close>

definition ancillary_count :: "RadvisFeaturePropertiesInput \<Rightarrow> nat" where
  "ancillary_count self = (if truthy_int (anzahl_schliessfaecher self) then 1 else 0)"

definition base_keys :: "string list" where
  "base_keys =
     [''operator_name'', ''description'', ''has_realtime_data'', ''is_covered'',
      ''related_location'', ''supervision_type'', ''tags'', ''static_data_updated_at'']"

text \<open>A bike stand with ten places, one charging point and two lockers.\<close>

definition radvis_example :: RadvisFeaturePropertiesInput where
  "radvis_example =
     \<lparr> id' = 42, betreiber = ''Stadt'', quell_system = ''RadVIS'', externe_id = None,
       zustaendig = None, zustaendig_orga_typ = None, anzahl_stellplaetze = 10,
       anzahl_schliessfaecher = Some 2, anzahl_lademoeglichkeiten = Some 1,
       ueberwacht = UNBEKANNT, abstellanlagen_ort = SCHULE, groessenklasse = Some ''XL'',
       stellplatzart = ANLEHNBUEGEL, ueberdacht = True, gebuehren_pro_tag = None,
       gebuehren_pro_monat = None, gebuehren_pro_jahr = None, beschreibung = Some ''a'',
       weitere_information = None, status = AKTIV \<rparr>"

section \<open>JSON payloads\<close>

text \<open>
  What \<^verbatim>\<open>response.json()\<close> returns. A float is kept as a mantissa and a binary
  exponent; nothing below computes with it. A raw record is a JSON object, an association
  list read with \<^verbatim>\<open>.get\<close>, which yields \<^verbatim>\<open>None\<close> (\<open>JNull\<close>) for an absent key.
\<close>

datatype json =
  JNull
  | JBool bool
  | JInt int
  | JFloat int int
  | JStr string
  | JList "json list"
  | JDict "(string \<times> json) list"

type_synonym raw_record = "(string \<times> json) list"

definition dict_get :: "raw_record \<Rightarrow> string \<Rightarrow> json" where
  "dict_get d k = (case map_of d k of None \<Rightarrow> JNull | Some v \<Rightarrow> v)"

section \<open>Kienzler: the request step\<close>

text \<open>Python's \<^verbatim>\<open>s.split(c)\<close> for a separator of one character.\<close>

fun split :: "char \<Rightarrow> string \<Rightarrow> string list" where
  "split c [] = [[]]"
| "split c (x # xs) =
     (if x = c then [] # split c xs
      else (case split c xs of [] \<Rightarrow> [[x]] | y # ys \<Rightarrow> (x # y) # ys))"

text \<open>\<^verbatim>\<open>range(i, n, step)\<close> for a positive step.\<close>

function range_step :: "nat \<Rightarrow> nat \<Rightarrow> nat \<Rightarrow> nat list" where
  "range_step i n step =
     (if i < n \<and> 0 < step then i # range_step (i + step) n step else [])"
  by pat_completeness auto
termination
  by (relation "measure (\<lambda>(i, n, step). n - i)") auto

declare range_step.simps [simp del]

text \<open>\<^verbatim>\<open>xs[i : j]\<close> for \<open>0 \<le> i \<le> j\<close>.\<close>

definition slice :: "'a list \<Rightarrow> nat \<Rightarrow> nat \<Rightarrow> 'a list" where
  "slice xs i j = take (j - i) (drop i xs)"

text \<open>
  \<^verbatim>\<open>_request\<close>. \<open>ids_config\<close> is the configured value of
  \<^verbatim>\<open>PARK_API_KIENZLER_..._IDS\<close>; the helper is asked again in every round and answers
  the same. \<open>post ids\<close> is the list that the server answers to the request carrying
  \<open>ids\<close>. \<open>request_ids\<close> lists the \<^verbatim>\<open>ids\<close> entries of the requests in the order they are
  sent.
\<close>

definition request_ids :: "string \<Rightarrow> string list list" where
  "request_ids ids_config =
     (let ids = split CHR '','' ids_config
      in map (\<lambda>i. slice (split CHR '','' ids_config) i (i + 25))
           (range_step 0 (length ids) 25))"

definition request :: "(string list \<Rightarrow> 'r list) \<Rightarrow> string \<Rightarrow> 'r list" where
  "request post ids_config =
     (let ids = split CHR '','' ids_config
      in fold (\<lambda>i result_dicts.
                 result_dicts @ post (slice (split CHR '','' ids_config) i (i + 25)))
           (range_step 0 (length ids) 25) [])"

section \<open>Validation errors and import exceptions\<close>

text \<open>
  \<^verbatim>\<open>e.to_dict()\<close> of a \<^verbatim>\<open>ValidationError\<close> is kept as a list of pairs: a field (or
  \<^verbatim>\<open>code\<close>) and the error code. The message of an \<^verbatim>\<open>ImportParkingSiteException\<close> is
  an f-string of the raw record and of that dictionary; the model keeps the two values
  instead of their printed form.
\<close>

type_synonym validation_error = "(string \<times> string) list"

record ImportParkingSiteException =
  source_uid :: string
  parking_site_uid :: json
  message :: "raw_record \<times> validation_error"

text \<open>The exceptions that leave a converter method uncaught.\<close>

datatype fault =
  ValidationError validation_error | AttributeError | TypeError | IndexError
  | InvalidOperation

section \<open>The canonical static record\<close>

type_synonym decimal = "int \<times> int"

text \<open>
  Modelled from the spec: \<^verbatim>\<open>StaticParkingSiteInput\<close> is declared in
  \<^verbatim>\<open>parkapi_sources/models\<close>, outside the files at hand. The fields are the keyword
  arguments that \<^verbatim>\<open>radvis_bw/models.py\<close> passes to its constructor (the keys of
  \<^verbatim>\<open>to_dicts\<close>, \<^verbatim>\<open>lat\<close> and \<^verbatim>\<open>lon\<close>), which are the fields the spec lists for a canonical
  static record. Every field but the identifier may be unset (\<open>None\<close>, or no tag). A
  decimal is a coefficient and a power of ten.
\<close>

record StaticParkingSiteInput =
  uid :: string
  group_uid :: "string option"
  name :: "string option"
  type' :: "ParkingSiteType option"
  purpose :: "PurposeType option"
  capacity :: "int option"
  capacity_charging :: "int option"
  operator_name :: "string option"
  description :: "string option"
  has_realtime_data :: "bool option"
  is_covered :: "bool option"
  related_location :: "string option"
  supervision_type :: "SupervisionType option"
  tags :: "string list"
  static_data_updated_at :: "datetime option"
  lat :: "decimal option"
  lon :: "decimal option"

section \<open>Kienzler: validation of a batch\<close>

text \<open>
  \<^verbatim>\<open>ListValidator(AnythingValidator(allowed_types=[dict]))\<close>: the input is a list and
  every item a dictionary, or the validator raises.
\<close>

fun as_dict :: "json \<Rightarrow> raw_record option" where
  "as_dict (JDict d) = Some d"
| "as_dict _ = None"

definition kienzler_list_validator :: "json \<Rightarrow> fault + raw_record list" where
  "kienzler_list_validator input_data =
     (case input_data of
        JList items \<Rightarrow>
          (case those (map as_dict items) of
             None \<Rightarrow> Inl (ValidationError [(''code'', ''list_item_errors'')])
           | Some parking_site_dicts \<Rightarrow> Inr parking_site_dicts)
      | _ \<Rightarrow> Inl (ValidationError [(''code'', ''invalid_type'')]))"

text \<open>
  The loop of \<^verbatim>\<open>_get_kienzler_parking_sites\<close>. \<open>validate\<close> is
  \<^verbatim>\<open>kienzler_item_validator.validate\<close>: it returns the validated record or raises a
  \<^verbatim>\<open>ValidationError\<close>, which the loop catches.
\<close>

fun kienzler_loop ::
  "(raw_record \<Rightarrow> validation_error + 'k) \<Rightarrow> string \<Rightarrow> raw_record list
   \<Rightarrow> 'k list \<times> ImportParkingSiteException list
   \<Rightarrow> 'k list \<times> ImportParkingSiteException list" where
  "kienzler_loop validate src [] (kienzler_item_inputs, errors) =
     (kienzler_item_inputs, errors)"
| "kienzler_loop validate src (parking_site_dict # rest) (kienzler_item_inputs, errors) =
     (case validate parking_site_dict of
        Inr item \<Rightarrow> kienzler_loop validate src rest (kienzler_item_inputs @ [item], errors)
      | Inl e \<Rightarrow>
          kienzler_loop validate src rest
            (kienzler_item_inputs,
             errors @ [\<lparr> source_uid = src,
                         parking_site_uid = dict_get parking_site_dict ''uid'',
                         message = (parking_site_dict, e) \<rparr>]))"

text \<open>
  \<^verbatim>\<open>_get_kienzler_parking_sites\<close>; \<open>result_dicts\<close> is the list that \<^verbatim>\<open>_request\<close>
  returned.
\<close>

definition get_kienzler_parking_sites ::
  "(raw_record \<Rightarrow> validation_error + 'k) \<Rightarrow> string \<Rightarrow> json list
   \<Rightarrow> fault + ('k list \<times> ImportParkingSiteException list)" where
  "get_kienzler_parking_sites validate src result_dicts =
     (case kienzler_list_validator (JList result_dicts) of
        Inl f \<Rightarrow> Inl f
      | Inr parking_site_dicts \<Rightarrow> Inr (kienzler_loop validate src parking_site_dicts ([], [])))"

section \<open>BFRK: the push converter\<close>

text \<open>
  A \<^verbatim>\<open>DataclassValidator\<close> raises on an input that is not a dictionary; on a dictionary
  it validates the fields, which is the parameter \<open>validate\<close>.
\<close>

definition bfrk_validator ::
  "(raw_record \<Rightarrow> validation_error + 'b) \<Rightarrow> json \<Rightarrow> validation_error + 'b" where
  "bfrk_validator validate input_dict =
     (case input_dict of
        JDict d \<Rightarrow> validate d
      | _ \<Rightarrow> Inl [(''code'', ''invalid_type'')])"

text \<open>
  The loop of \<^verbatim>\<open>get_static_parking_sites\<close>. The handler calls \<^verbatim>\<open>input_dict.get\<close>,
  which only a dictionary has.
\<close>

fun bfrk_loop ::
  "(raw_record \<Rightarrow> validation_error + 'b) \<Rightarrow> ('b \<Rightarrow> StaticParkingSiteInput) \<Rightarrow> string
   \<Rightarrow> json list
   \<Rightarrow> StaticParkingSiteInput list \<times> ImportParkingSiteException list
   \<Rightarrow> fault + (StaticParkingSiteInput list \<times> ImportParkingSiteException list)" where
  "bfrk_loop validate to_static_parking_site_input src []
     (static_parking_site_inputs, static_parking_site_errors) =
     Inr (static_parking_site_inputs, static_parking_site_errors)"
| "bfrk_loop validate to_static_parking_site_input src (input_dict # rest)
     (static_parking_site_inputs, static_parking_site_errors) =
     (case bfrk_validator validate input_dict of
        Inl e \<Rightarrow>
          (case input_dict of
             JDict d \<Rightarrow>
               bfrk_loop validate to_static_parking_site_input src rest
                 (static_parking_site_inputs,
                  static_parking_site_errors
                  @ [\<lparr> source_uid = src,
                        parking_site_uid = dict_get d ''infraid'',
                        message = (d, e) \<rparr>])
           | _ \<Rightarrow> Inl AttributeError)
      | Inr input_data \<Rightarrow>
          bfrk_loop validate to_static_parking_site_input src rest
            (static_parking_site_inputs @ [to_static_parking_site_input input_data],
             static_parking_site_errors))"

text \<open>
  What a \<^verbatim>\<open>for\<close> loop walks through: the items of a list, the keys of a dictionary,
  the characters of a string; any other JSON value is not iterable.
\<close>

fun iterate :: "json \<Rightarrow> json list option" where
  "iterate (JList items) = Some items"
| "iterate (JDict d) = Some (map (\<lambda>(k, v). JStr k) d)"
| "iterate (JStr s) = Some (map (\<lambda>c. JStr [c]) s)"
| "iterate _ = None"

definition bfrk_get_static_parking_sites ::
  "(raw_record \<Rightarrow> validation_error + 'b) \<Rightarrow> ('b \<Rightarrow> StaticParkingSiteInput) \<Rightarrow> string
   \<Rightarrow> json
   \<Rightarrow> fault + (StaticParkingSiteInput list \<times> ImportParkingSiteException list)" where
  "bfrk_get_static_parking_sites validate to_static_parking_site_input src input_dicts =
     (case iterate input_dicts of
        None \<Rightarrow> Inl TypeError
      | Some items \<Rightarrow> bfrk_loop validate to_static_parking_site_input src items ([], []))"

text \<open>
  \<^verbatim>\<open>get_realtime_parking_sites\<close> of the BFRK converter; \<open>self\<close> is the converter
  instance with all its state.
\<close>

definition bfrk_get_realtime_parking_sites ::
  "'self \<Rightarrow> 'realtime list \<times> ImportParkingSiteException list" where
  "bfrk_get_realtime_parking_sites self = ([], [])"

section \<open>Kienzler: static data and the GeoJSON overlay\<close>

text \<open>
  The class \<^verbatim>\<open>KienzlerInput\<close> is declared in \<^verbatim>\<open>kienzler/models.py\<close>, outside the files
  at hand, so the type of its instances is the parameter \<open>'k\<close> and what the converter
  calls on them are the fields of \<open>kienzler_methods\<close>:
  \<^item> \<open>validate\<close> is \<^verbatim>\<open>kienzler_item_validator.validate\<close>;
  \<^item> \<open>id_str k\<close> is \<^verbatim>\<open>str(k.id)\<close>;
  \<^item> \<open>to_static_parking_site k public_url\<close> is the record that the call builds;
  \<^item> \<open>extend_static_parking_site_input k g\<close> is what the call, which returns nothing
    that the converter keeps, leaves in the two objects it can reach: the receiver and
    its argument.
\<close>

record 'k kienzler_methods =
  validate :: "raw_record \<Rightarrow> validation_error + 'k"
  id_str :: "'k \<Rightarrow> string"
  to_static_parking_site :: "'k \<Rightarrow> string \<Rightarrow> StaticParkingSiteInput"
  extend_static_parking_site_input ::
    "'k \<Rightarrow> StaticParkingSiteInput \<Rightarrow> 'k \<times> StaticParkingSiteInput"

text \<open>
  The objects of class \<^verbatim>\<open>StaticParkingSiteInput\<close> live in a store, a list indexed by
  address. Allocation appends; a Python list or dictionary of such objects holds their
  addresses.
\<close>

type_synonym static_store = "StaticParkingSiteInput list"

definition alloc :: "static_store \<Rightarrow> StaticParkingSiteInput list \<Rightarrow> static_store \<times> nat list" where
  "alloc h objs = (h @ objs, [length h ..< length h + length objs])"

text \<open>
  \<^verbatim>\<open>static_geojson_parking_site_inputs_by_uid\<close>: a later entry with the same identifier
  replaces an earlier one.
\<close>

definition index_by_uid :: "static_store \<Rightarrow> nat list \<Rightarrow> (string \<rightharpoonup> nat)" where
  "index_by_uid h geojson_parking_sites =
     fold (\<lambda>geojson_parking_site by_uid. by_uid(uid (h ! geojson_parking_site) \<mapsto> geojson_parking_site))
       geojson_parking_sites Map.empty"

text \<open>
  One round of the loop that extends the static data, for the \<open>i\<close>-th validated record.
  The state is the list of the validated records, which are objects of their own, and the
  store.
\<close>

definition extend_step ::
  "'k kienzler_methods \<Rightarrow> (string \<rightharpoonup> nat) \<Rightarrow> nat \<Rightarrow> 'k list \<times> static_store
   \<Rightarrow> 'k list \<times> static_store" where
  "extend_step M by_uid i state =
     (case state of (kienzler_parking_sites, h) \<Rightarrow>
        (let parking_site_uid = id_str M (kienzler_parking_sites ! i)
         in case by_uid parking_site_uid of
              None \<Rightarrow> (kienzler_parking_sites, h)
            | Some a \<Rightarrow>
                (case extend_static_parking_site_input M (kienzler_parking_sites ! i) (h ! a) of
                   (k', g') \<Rightarrow> (kienzler_parking_sites[i := k'], h[a := g']))))"

text \<open>
  \<^verbatim>\<open>get_static_parking_sites\<close>. \<open>geojson\<close> is the pair that
  \<^verbatim>\<open>_get_static_geojson_parking_sites\<close> returns. The list that is returned holds the
  addresses of the records built before the overlay is read.
\<close>

definition kienzler_get_static_parking_sites ::
  "'k kienzler_methods \<Rightarrow> bool \<Rightarrow> string \<Rightarrow> string \<Rightarrow> json list
   \<Rightarrow> StaticParkingSiteInput list \<times> ImportParkingSiteException list
   \<Rightarrow> fault + (StaticParkingSiteInput list \<times> ImportParkingSiteException list)" where
  "kienzler_get_static_parking_sites M use_geojson src public_url result_dicts geojson =
     (case get_kienzler_parking_sites (validate M) src result_dicts of
        Inl f \<Rightarrow> Inl f
      | Inr (kienzler_parking_sites, static_parking_site_errors) \<Rightarrow>
          (case alloc []
                  (map (\<lambda>kienzler_parking_site.
                          to_static_parking_site M kienzler_parking_site public_url)
                     kienzler_parking_sites) of
             (h1, static_parking_site_inputs) \<Rightarrow>
               if use_geojson
               then (case geojson of
                 (geojson_objs, geojson_parking_site_errors) \<Rightarrow>
                   (case alloc h1 geojson_objs of
                      (h2, geojson_parking_sites) \<Rightarrow>
                        (let by_uid = index_by_uid h2 geojson_parking_sites;
                             errors = static_parking_site_errors @ geojson_parking_site_errors;
                             state = fold (extend_step M by_uid)
                                       [0 ..< length kienzler_parking_sites]
                                       (kienzler_parking_sites, h2)
                         in Inr (map (\<lambda>a. snd state ! a) static_parking_site_inputs, errors))))
               else Inr (map (\<lambda>a. h1 ! a) static_parking_site_inputs,
                         static_parking_site_errors)))"

section \<open>A Kienzler source for the scenarios\<close>

text \<open>
  The validators of the fields, as \<^verbatim>\<open>validataclass\<close> has them: a
  \<^verbatim>\<open>StringValidator\<close> takes a string only, an \<^verbatim>\<open>IntegerValidator\<close> an integer only
  (neither a string of digits nor a boolean), within the 32-bit range when no bounds are
  given; \<^verbatim>\<open>None\<close> is reported as a missing value, and a field without a default is
  required.
\<close>

definition StringValidator :: "json \<Rightarrow> string + string" where
  "StringValidator v =
     (case v of
        JNull \<Rightarrow> Inl ''required_value''
      | JStr s \<Rightarrow> Inr s
      | _ \<Rightarrow> Inl ''invalid_type'')"

definition IntegerValidator :: "json \<Rightarrow> string + int" where
  "IntegerValidator v =
     (case v of
        JNull \<Rightarrow> Inl ''required_value''
      | JInt i \<Rightarrow>
          if - 2147483648 \<le> i \<and> i \<le> 2147483647 then Inr i
          else Inl ''number_range_error''
      | _ \<Rightarrow> Inl ''invalid_type'')"

definition validate_field :: "raw_record \<Rightarrow> string \<Rightarrow> (json \<Rightarrow> string + 'a) \<Rightarrow> string + 'a" where
  "validate_field d k validator =
     (case map_of d k of None \<Rightarrow> Inl ''required_field'' | Some v \<Rightarrow> validator v)"

definition field_error :: "string \<Rightarrow> string + 'a \<Rightarrow> validation_error" where
  "field_error k r = (case r of Inl code \<Rightarrow> [(k, code)] | Inr v \<Rightarrow> [])"

text \<open>
  Modelled from the spec: the fields of \<^verbatim>\<open>KienzlerInput\<close>, whose declaration is in
  \<^verbatim>\<open>kienzler/models.py\<close>, outside the files at hand. The converter reads the attribute
  \<^verbatim>\<open>id\<close> of a validated record, and a validated dataclass takes each attribute from the
  key of its name. The spec has scenarios with a required numeric field, and names the
  capacity of a site as a number. Validation reports every field that failed.
\<close>

record KienzlerInput =
  kienzler_id :: string
  kienzler_capacity :: int

definition KienzlerInput_validate :: "raw_record \<Rightarrow> validation_error + KienzlerInput" where
  "KienzlerInput_validate d =
     (case (validate_field d ''id'' StringValidator,
            validate_field d ''capacity'' IntegerValidator) of
        (Inr i, Inr c) \<Rightarrow> Inr \<lparr> kienzler_id = i, kienzler_capacity = c \<rparr>
      | (r1, r2) \<Rightarrow> Inl (field_error ''id'' r1 @ field_error ''capacity'' r2))"

text \<open>
  Modelled from the spec: the merge of a canonical record with its overlay record. Every
  field of the canonical record that is unset takes the value of the overlay record; a
  field that is set keeps its value.
\<close>

definition fill :: "'a option \<Rightarrow> 'a option \<Rightarrow> 'a option" where
  "fill canonical_field overlay_field =
     (case canonical_field of None \<Rightarrow> overlay_field | Some v \<Rightarrow> Some v)"

definition merge :: "StaticParkingSiteInput \<Rightarrow> StaticParkingSiteInput \<Rightarrow> StaticParkingSiteInput" where
  "merge canonical overlay =
     \<lparr> uid = uid canonical,
       group_uid = fill (group_uid canonical) (group_uid overlay),
       name = fill (name canonical) (name overlay),
       type' = fill (type' canonical) (type' overlay),
       purpose = fill (purpose canonical) (purpose overlay),
       capacity = fill (capacity canonical) (capacity overlay),
       capacity_charging = fill (capacity_charging canonical) (capacity_charging overlay),
       operator_name = fill (operator_name canonical) (operator_name overlay),
       description = fill (description canonical) (description overlay),
       has_realtime_data = fill (has_realtime_data canonical) (has_realtime_data overlay),
       is_covered = fill (is_covered canonical) (is_covered overlay),
       related_location = fill (related_location canonical) (related_location overlay),
       supervision_type = fill (supervision_type canonical) (supervision_type overlay),
       tags = (if tags canonical = [] then tags overlay else tags canonical),
       static_data_updated_at =
         fill (static_data_updated_at canonical) (static_data_updated_at overlay),
       lat = fill (lat canonical) (lat overlay),
       lon = fill (lon canonical) (lon overlay) \<rparr>"

text \<open>
  Modelled from the spec: the methods of \<^verbatim>\<open>KienzlerInput\<close>. The canonical record of a
  validated record has its identifier and its capacity, and realtime data, as every
  Kienzler source declares. The extension puts the merge of that canonical record with
  the overlay record into the object it is given, the overlay record.
\<close>

definition example_to_static_parking_site :: "KienzlerInput \<Rightarrow> string \<Rightarrow> StaticParkingSiteInput" where
  "example_to_static_parking_site k public_url =
     \<lparr> uid = kienzler_id k, group_uid = None, name = None, type' = None, purpose = None,
       capacity = Some (kienzler_capacity k), capacity_charging = None, operator_name = None,
       description = None, has_realtime_data = Some True, is_covered = None,
       related_location = None, supervision_type = None, tags = [],
       static_data_updated_at = None, lat = None, lon = None \<rparr>"

definition example_methods :: "string \<Rightarrow> KienzlerInput kienzler_methods" where
  "example_methods public_url =
     \<lparr> validate = KienzlerInput_validate,
       id_str = kienzler_id,
       to_static_parking_site = example_to_static_parking_site,
       extend_static_parking_site_input =
         (\<lambda>k g. (k, merge (example_to_static_parking_site k public_url) g)) \<rparr>"

text \<open>The raw record of a site and the overlay record of a site.\<close>

definition raw_site :: "string \<Rightarrow> json \<Rightarrow> json" where
  "raw_site i c = JDict [(''id'', JStr i), (''capacity'', c)]"

definition overlay_site :: "string \<Rightarrow> string \<Rightarrow> StaticParkingSiteInput" where
  "overlay_site i n =
     \<lparr> uid = i, group_uid = None, name = Some n, type' = Some LOCKERS, purpose = Some BIKE,
       capacity = Some 0, capacity_charging = None, operator_name = Some ''Kienzler'',
       description = Some ''Bike boxes'', has_realtime_data = Some False,
       is_covered = Some True, related_location = None, supervision_type = None, tags = [],
       static_data_updated_at = None, lat = Some (487758000, - 7), lon = Some (91829000, - 7) \<rparr>"

text \<open>Five well-formed records with an overlay record for each of them.\<close>

definition batch_ok :: "json list" where
  "batch_ok =
     [raw_site ''u1'' (JInt 10), raw_site ''u2'' (JInt 20), raw_site ''u3'' (JInt 30),
      raw_site ''u4'' (JInt 40), raw_site ''u5'' (JInt 50)]"

definition overlay_all :: "StaticParkingSiteInput list \<times> ImportParkingSiteException list" where
  "overlay_all =
     ([overlay_site ''u1'' ''A'', overlay_site ''u2'' ''B'', overlay_site ''u3'' ''C'',
       overlay_site ''u4'' ''D'', overlay_site ''u5'' ''E''], [])"

text \<open>The same batch with a string in the numeric field of the third record.\<close>

definition batch_malformed :: "json list" where
  "batch_malformed =
     [raw_site ''u1'' (JInt 10), raw_site ''u2'' (JInt 20), raw_site ''u3'' (JStr ''thirty''),
      raw_site ''u4'' (JInt 40), raw_site ''u5'' (JInt 50)]"

section \<open>RadVIS: reprojection of the coordinates\<close>




















section \<open>Enumeration mappings\<close>

text \<open>
  C8. The mapping of the site type is total and sends every source value to a canonical
  site type: the six values with an entry go to their entry, and \<open>SONSTIGE\<close>, the only
  value without one, goes to \<open>OTHER\<close>. The mapping of the supervision type is not
  symmetric: \<open>UNBEKANNT\<close> has no entry and no fallback, so the result is \<open>None\<close> (no
  supervision value at all, in particular not the canonical "unknown"), while \<open>KEINE\<close>
  and \<open>VIDEO\<close> go to their entries.
\<close>

theorem enum_mappings_asymmetric_fallback:
  "to_parking_site_type ANLEHNBUEGEL = STANDS
   \<and> to_parking_site_type FAHRRADBOX = LOCKERS
   \<and> to_parking_site_type VORDERRADANSCHLUSS = WALL_LOOPS
   \<and> to_parking_site_type DOPPELSTOECKIG = TWO_TIER
   \<and> to_parking_site_type FAHRRADPARKHAUS = BUILDING
   \<and> to_parking_site_type SAMMELANLAGE = SHED
   \<and> to_parking_site_type SONSTIGE = OTHER
   \<and> to_supervision_type UNBEKANNT = None
   \<and> to_supervision_type UNBEKANNT \<noteq> Some SUPERVISION_UNKNOWN
   \<and> to_supervision_type KEINE = Some SUPERVISION_NO
   \<and> to_supervision_type VIDEO = Some SUPERVISION_VIDEO"
  by (simp add: to_parking_site_type_def to_supervision_type_def dict_get_default_def)

section \<open>Fan-out of a RadVIS record\<close>

lemma base_data_eq:
  "base_data self now =
     [(''operator_name'', PStr (betreiber self)),
      (''description'', optional PStr (description_of self)),
      (''has_realtime_data'', PBool False),
      (''is_covered'', PBool (ueberdacht self)),
      (''related_location'', optional PStr (to_related_location (abstellanlagen_ort self))),
      (''supervision_type'', optional PSupervisionType (to_supervision_type (ueberwacht self))),
      (''tags'',
         PStrList (if truthy_str (groessenklasse self)
                   then [''BW_SIZE_'' @ the (groessenklasse self)] else [])),
      (''static_data_updated_at'', PDatetime now)]"
  by (simp add: base_data_def dict_literal_def)

lemma parent_dict_eq:
  "dict_literal
     ([(''uid'', u), (''name'', n), (''type'', t), (''capacity'', c),
       (''capacity_charging'', cc), (''purpose'', p)] @ base_data self now)
   = [(''uid'', u), (''name'', n), (''type'', t), (''capacity'', c),
      (''capacity_charging'', cc), (''purpose'', p)] @ base_data self now"
  by (simp add: base_data_eq dict_literal_def)

lemma locker_dict_eq:
  "dict_literal
     ([(''uid'', u), (''group_uid'', g), (''name'', n), (''type'', t), (''capacity'', c),
       (''purpose'', p)] @ base_data self now)
   = [(''uid'', u), (''group_uid'', g), (''name'', n), (''type'', t), (''capacity'', c),
      (''purpose'', p)] @ base_data self now"
  by (simp add: base_data_eq dict_literal_def)

text \<open>The two shapes of the result, with every dictionary written out.\<close>

lemma to_dicts_eq:
  "to_dicts self now =
    (if truthy_int (anzahl_schliessfaecher self)
     then [[(''uid'', PStr (str_int (id' self))),
            (''name'', PStr ''Abstellanlage''),
            (''type'', PParkingSiteType (to_parking_site_type (stellplatzart self))),
            (''capacity'', PInt (anzahl_stellplaetze self)),
            (''capacity_charging'', optional PInt (anzahl_lademoeglichkeiten self)),
            (''purpose'', PPurposeType BIKE)]
           @ base_data self now @ [(''group_uid'', PStr (str_int (id' self)))],
           [(''uid'', PStr (str_int (id' self) @ ''-lockbox'')),
            (''group_uid'', PStr (str_int (id' self))),
            (''name'', PStr ''Schliessfach''),
            (''type'', PParkingSiteType LOCKBOX),
            (''capacity'', PInt (the (anzahl_schliessfaecher self))),
            (''purpose'', PPurposeType ITEM)]
           @ base_data self now]
     else [[(''uid'', PStr (str_int (id' self))),
            (''name'', PStr ''Abstellanlage''),
            (''type'', PParkingSiteType (to_parking_site_type (stellplatzart self))),
            (''capacity'', PInt (anzahl_stellplaetze self)),
            (''capacity_charging'', optional PInt (anzahl_lademoeglichkeiten self)),
            (''purpose'', PPurposeType BIKE)]
           @ base_data self now])"
  unfolding to_dicts_def Let_def parent_dict_eq locker_dict_eq
  by (simp add: base_data_eq)

text \<open>
  C3, as the code has it. A record with \<open>N\<close> ancillary facilities (\<open>N\<close> is one when the
  locker count is truthy, zero otherwise) is mapped to exactly \<open>1 + N\<close> dictionaries. The
  first carries the record's identifier. When the locker count is \<open>n \<noteq> 0\<close>, the second
  has the identifier followed by \<^verbatim>\<open>-lockbox\<close>, the record's identifier as group
  identifier, purpose \<open>ITEM\<close> and capacity \<open>n\<close>. Every emitted dictionary holds each key
  of the base data with the value of the base data. Two emitted dictionaries can differ
  only at the keys \<^verbatim>\<open>uid\<close>, \<^verbatim>\<open>name\<close>, \<^verbatim>\<open>type\<close>, \<^verbatim>\<open>capacity\<close>, \<^verbatim>\<open>capacity_charging\<close>
  and \<^verbatim>\<open>purpose\<close>; in particular they agree on the group identifier. At those keys the
  lockbox record has its own name \<^verbatim>\<open>Schliessfach\<close> and type \<open>LOCKBOX\<close> and no charging
  capacity at all (the key is absent), while the first record has the name
  \<^verbatim>\<open>Abstellanlage\<close>, the mapped site type, the number of places, the number of charging
  points and the purpose \<open>BIKE\<close>. The keys of each dictionary are listed in full; the
  first record has a group identifier exactly when there is a lockbox record.
\<close>

theorem to_dicts_fan_out:
  "length (to_dicts self now) = 1 + ancillary_count self
   \<and> map_of (to_dicts self now ! 0) ''uid'' = Some (PStr (str_int (id' self)))
   \<and> (\<forall>n. anzahl_schliessfaecher self = Some n \<and> n \<noteq> 0 \<longrightarrow>
         ancillary_count self = 1
         \<and> map_of (to_dicts self now ! 1) ''uid'' = Some (PStr (str_int (id' self) @ ''-lockbox''))
         \<and> map_of (to_dicts self now ! 1) ''group_uid'' = Some (PStr (str_int (id' self)))
         \<and> map_of (to_dicts self now ! 1) ''purpose'' = Some (PPurposeType ITEM)
         \<and> map_of (to_dicts self now ! 1) ''capacity'' = Some (PInt n))
   \<and> (\<forall>d \<in> set (to_dicts self now). \<forall>k \<in> set base_keys.
         map_of d k = map_of (base_data self now) k \<and> map_of d k \<noteq> None)
   \<and> (\<forall>d \<in> set (to_dicts self now). \<forall>e \<in> set (to_dicts self now). \<forall>k.
         k \<notin> {''uid'', ''name'', ''type'', ''capacity'', ''capacity_charging'', ''purpose''}
         \<longrightarrow> map_of d k = map_of e k)
   \<and> (truthy_int (anzahl_schliessfaecher self) \<longrightarrow>
         map_of (to_dicts self now ! 1) ''name'' = Some (PStr ''Schliessfach'')
         \<and> map_of (to_dicts self now ! 1) ''type'' = Some (PParkingSiteType LOCKBOX)
         \<and> map_of (to_dicts self now ! 1) ''capacity_charging'' = None
         \<and> map fst (to_dicts self now ! 1)
             = [''uid'', ''group_uid'', ''name'', ''type'', ''capacity'', ''purpose''] @ base_keys)
   \<and> map_of (to_dicts self now ! 0) ''name'' = Some (PStr ''Abstellanlage'')
   \<and> map_of (to_dicts self now ! 0) ''type''
       = Some (PParkingSiteType (to_parking_site_type (stellplatzart self)))
   \<and> map_of (to_dicts self now ! 0) ''capacity'' = Some (PInt (anzahl_stellplaetze self))
   \<and> map_of (to_dicts self now ! 0) ''capacity_charging''
       = Some (optional PInt (anzahl_lademoeglichkeiten self))
   \<and> map_of (to_dicts self now ! 0) ''purpose'' = Some (PPurposeType BIKE)
   \<and> map_of (to_dicts self now ! 0) ''group_uid''
       = (if truthy_int (anzahl_schliessfaecher self)
          then Some (PStr (str_int (id' self))) else None)
   \<and> map fst (to_dicts self now ! 0)
       = [''uid'', ''name'', ''type'', ''capacity'', ''capacity_charging'', ''purpose'']
         @ base_keys
         @ (if truthy_int (anzahl_schliessfaecher self) then [''group_uid''] else [])"
proof -
  have count: "length (to_dicts self now) = 1 + ancillary_count self"
    by (simp add: to_dicts_eq ancillary_count_def)
  have parent_uid: "map_of (to_dicts self now ! 0) ''uid'' = Some (PStr (str_int (id' self)))"
    by (simp add: to_dicts_eq)
  have lockbox: "\<forall>n. anzahl_schliessfaecher self = Some n \<and> n \<noteq> 0 \<longrightarrow>
         ancillary_count self = 1
         \<and> map_of (to_dicts self now ! 1) ''uid'' = Some (PStr (str_int (id' self) @ ''-lockbox''))
         \<and> map_of (to_dicts self now ! 1) ''group_uid'' = Some (PStr (str_int (id' self)))
         \<and> map_of (to_dicts self now ! 1) ''purpose'' = Some (PPurposeType ITEM)
         \<and> map_of (to_dicts self now ! 1) ''capacity'' = Some (PInt n)"
    by (simp add: to_dicts_eq ancillary_count_def truthy_int_def)
  have base: "\<forall>d \<in> set (to_dicts self now). \<forall>k \<in> set base_keys.
         map_of d k = map_of (base_data self now) k \<and> map_of d k \<noteq> None"
    by (simp add: to_dicts_eq base_keys_def base_data_eq)
  have differ: "\<forall>d \<in> set (to_dicts self now). \<forall>e \<in> set (to_dicts self now). \<forall>k.
         k \<notin> {''uid'', ''name'', ''type'', ''capacity'', ''capacity_charging'', ''purpose''}
         \<longrightarrow> map_of d k = map_of e k"
    by (simp add: to_dicts_eq base_data_eq)
  have lockbox_own: "truthy_int (anzahl_schliessfaecher self) \<longrightarrow>
         map_of (to_dicts self now ! 1) ''name'' = Some (PStr ''Schliessfach'')
         \<and> map_of (to_dicts self now ! 1) ''type'' = Some (PParkingSiteType LOCKBOX)
         \<and> map_of (to_dicts self now ! 1) ''capacity_charging'' = None
         \<and> map fst (to_dicts self now ! 1)
             = [''uid'', ''group_uid'', ''name'', ''type'', ''capacity'', ''purpose''] @ base_keys"
    by (simp add: to_dicts_eq base_keys_def base_data_eq)
  have parent: "map_of (to_dicts self now ! 0) ''name'' = Some (PStr ''Abstellanlage'')
   \<and> map_of (to_dicts self now ! 0) ''type''
       = Some (PParkingSiteType (to_parking_site_type (stellplatzart self)))
   \<and> map_of (to_dicts self now ! 0) ''capacity'' = Some (PInt (anzahl_stellplaetze self))
   \<and> map_of (to_dicts self now ! 0) ''capacity_charging''
       = Some (optional PInt (anzahl_lademoeglichkeiten self))
   \<and> map_of (to_dicts self now ! 0) ''purpose'' = Some (PPurposeType BIKE)
   \<and> map_of (to_dicts self now ! 0) ''group_uid''
       = (if truthy_int (anzahl_schliessfaecher self)
          then Some (PStr (str_int (id' self))) else None)
   \<and> map fst (to_dicts self now ! 0)
       = [''uid'', ''name'', ''type'', ''capacity'', ''capacity_charging'', ''purpose'']
         @ base_keys
         @ (if truthy_int (anzahl_schliessfaecher self) then [''group_uid''] else [])"
    by (simp add: to_dicts_eq base_keys_def base_data_eq)
  show ?thesis
    by (rule conjI [OF count conjI [OF parent_uid conjI [OF lockbox conjI [OF base
          conjI [OF differ conjI [OF lockbox_own parent]]]]]])
qed

text \<open>
  The theorem at the example record: two dictionaries, the second one the lockbox with
  capacity 2 and no charging capacity, both with the tags of the record and the group
  identifier \<^verbatim>\<open>42\<close>.
\<close>

theorem to_dicts_fan_out_witness:
  "anzahl_schliessfaecher radvis_example = Some 2 \<and> (2::int) \<noteq> 0
   \<and> to_dicts radvis_example 0 ! 1 \<in> set (to_dicts radvis_example 0)
   \<and> ''tags'' \<in> set base_keys
   \<and> length (to_dicts radvis_example 0) = 2
   \<and> map_of (to_dicts radvis_example 0 ! 1) ''uid'' = Some (PStr ''42-lockbox'')
   \<and> map_of (to_dicts radvis_example 0 ! 1) ''group_uid'' = Some (PStr ''42'')
   \<and> map_of (to_dicts radvis_example 0 ! 1) ''capacity'' = Some (PInt 2)
   \<and> map_of (to_dicts radvis_example 0 ! 1) ''tags'' = map_of (base_data radvis_example 0) ''tags''
   \<and> truthy_int (anzahl_schliessfaecher radvis_example)
   \<and> map_of (to_dicts radvis_example 0 ! 1) ''capacity_charging'' = None
   \<and> map_of (to_dicts radvis_example 0 ! 1) ''name'' = Some (PStr ''Schliessfach'')"
proof -
  note T = to_dicts_fan_out [of radvis_example 0]
  have tr: "truthy_int (anzahl_schliessfaecher radvis_example)"
    by (simp add: radvis_example_def truthy_int_def)
  have own: "map_of (to_dicts radvis_example 0 ! 1) ''name'' = Some (PStr ''Schliessfach'')
     \<and> map_of (to_dicts radvis_example 0 ! 1) ''type'' = Some (PParkingSiteType LOCKBOX)
     \<and> map_of (to_dicts radvis_example 0 ! 1) ''capacity_charging'' = None
     \<and> map fst (to_dicts radvis_example 0 ! 1)
         = [''uid'', ''group_uid'', ''name'', ''type'', ''capacity'', ''purpose''] @ base_keys"
    using T [THEN conjunct2, THEN conjunct2, THEN conjunct2, THEN conjunct2, THEN conjunct2,
             THEN conjunct1, rule_format, OF tr] .
  have h: "anzahl_schliessfaecher radvis_example = Some 2 \<and> (2::int) \<noteq> 0"
    by (simp add: radvis_example_def)
  have len: "length (to_dicts radvis_example 0) = 1 + ancillary_count radvis_example"
    using T by (rule conjunct1)
  have anc: "ancillary_count radvis_example = 1
     \<and> map_of (to_dicts radvis_example 0 ! 1) ''uid''
         = Some (PStr (str_int (id' radvis_example) @ ''-lockbox''))
     \<and> map_of (to_dicts radvis_example 0 ! 1) ''group_uid''
         = Some (PStr (str_int (id' radvis_example)))
     \<and> map_of (to_dicts radvis_example 0 ! 1) ''purpose'' = Some (PPurposeType ITEM)
     \<and> map_of (to_dicts radvis_example 0 ! 1) ''capacity'' = Some (PInt 2)"
    using T [THEN conjunct2, THEN conjunct2, THEN conjunct1, rule_format, OF h] .
  have two: "length (to_dicts radvis_example 0) = 2"
    using len anc by simp
  have mem: "to_dicts radvis_example 0 ! 1 \<in> set (to_dicts radvis_example 0)"
    using two by simp
  have key: "''tags'' \<in> set base_keys"
    by (simp add: base_keys_def)
  have base: "map_of (to_dicts radvis_example 0 ! 1) ''tags''
      = map_of (base_data radvis_example 0) ''tags''"
    using T [THEN conjunct2, THEN conjunct2, THEN conjunct2, THEN conjunct1, rule_format, OF mem key]
    by (rule conjunct1)
  have sid: "str_int (id' radvis_example) = ''42''"
    by (simp add: radvis_example_def str_int_def)
  show ?thesis
    using h two mem key anc base sid tr own by simp
qed

text \<open>
  The claim as it is written lets the emitted records differ only in identifier, group
  identifier, purpose and capacity. At the example record the two dictionaries differ at
  the key \<^verbatim>\<open>name\<close>, which is none of the four.
\<close>

theorem to_dicts_differ_counterexample:
  "''name'' \<notin> {''uid'', ''group_uid'', ''purpose'', ''capacity''}
   \<and> map_of (to_dicts radvis_example 0 ! 0) ''name'' = Some (PStr ''Abstellanlage'')
   \<and> map_of (to_dicts radvis_example 0 ! 1) ''name'' = Some (PStr ''Schliessfach'')
   \<and> map_of (to_dicts radvis_example 0 ! 0) ''name''
       \<noteq> map_of (to_dicts radvis_example 0 ! 1) ''name''"
  by (simp add: to_dicts_eq radvis_example_def truthy_int_def)

section \<open>Chunked requests\<close>

lemma concat_slices:
  "concat (map (\<lambda>i. slice xs i (i + 25)) (range_step j (length xs) 25)) = drop j xs"
proof (induction j "length xs" "25::nat" rule: range_step.induct)
  case (1 i)
  show ?case
  proof (cases "i < length xs")
    case True
    have d: "take 25 (drop i xs) @ drop (i + 25) xs = drop i xs"
      using append_take_drop_id [of 25 "drop i xs"] by (simp add: add.commute)
    from True 1 have "concat (map (\<lambda>i. slice xs i (i + 25)) (range_step (i + 25) (length xs) 25))
        = drop (i + 25) xs" by simp
    with True d show ?thesis
      by (subst range_step.simps) (simp add: slice_def)
  next
    case False
    then show ?thesis by (subst range_step.simps) simp
  qed
qed

lemma ceil_step:
  assumes "i < (n::nat)"
  shows "(n - i + 24) div 25 = Suc ((n - (i + 25) + 24) div 25)"
proof (cases "n \<le> i + 25")
  case True
  with assms have "25 * 1 \<le> n - i + 24" and "n - i + 24 < 25 * Suc 1" by simp_all
  then have "(n - i + 24) div 25 = 1" by (rule div_nat_eqI)
  with True show ?thesis by simp
next
  case False
  then have "n - i + 24 = (n - (i + 25) + 24) + 25" by simp
  then show ?thesis by (simp only: div_add_self2)
qed

lemma length_range_step: "length (range_step i n 25) = (n - i + 24) div 25"
proof (induction i n "25::nat" rule: range_step.induct)
  case (1 i n)
  show ?case
  proof (cases "i < n")
    case True
    with 1 have "length (range_step (i + 25) n 25) = (n - (i + 25) + 24) div 25" by simp
    with True ceil_step [OF True] show ?thesis
      by (subst range_step.simps) (simp only: if_True list.size length_Cons simp_thms zero_less_numeral)
  next
    case False
    then show ?thesis by (subst range_step.simps) simp
  qed
qed

lemma set_range_step: "k \<in> set (range_step i n 25) \<Longrightarrow> k < n"
proof (induction i n "25::nat" rule: range_step.induct)
  case (1 i n)
  from "1.prems" have "k \<in> set (if i < n \<and> 0 < (25::nat) then i # range_step (i + 25) n 25 else [])"
    by (subst (asm) range_step.simps) 
  then have *: "i < n" and **: "k = i \<or> k \<in> set (range_step (i + 25) n 25)"
    by (simp_all split: if_splits)
  then show ?case using 1 by auto
qed

lemma fold_post:
  "fold (\<lambda>i acc. acc @ post (f i)) js acc0 = acc0 @ concat (map (\<lambda>i. post (f i)) js)"
  by (induction js arbitrary: acc0) simp_all

text \<open>
  C9. The configured identifier list is split at the commas into \<open>n\<close> identifiers. The
  requests carry consecutive slices of that list: their concatenation is the list itself
  (every identifier once, in its order), each request carries at least one and at most 25
  identifiers, and there are \<open>(n + 24) div 25\<close> requests, the ceiling of \<open>n / 25\<close>. The
  result is the concatenation of the answers in the order of the requests.
\<close>

theorem request_chunks:
  "concat (request_ids ids_config) = split CHR '','' ids_config
   \<and> length (request_ids ids_config) = (length (split CHR '','' ids_config) + 24) div 25
   \<and> (\<forall>c \<in> set (request_ids ids_config). c \<noteq> [] \<and> length c \<le> 25)
   \<and> request post ids_config = concat (map post (request_ids ids_config))"
proof -
  let ?ids = "split CHR '','' ids_config"
  have a: "concat (request_ids ids_config) = ?ids"
    using concat_slices [of ?ids 0] by (simp add: request_ids_def Let_def)
  have b: "length (request_ids ids_config) = (length ?ids + 24) div 25"
    by (simp add: request_ids_def Let_def length_range_step)
  have c: "\<forall>c \<in> set (request_ids ids_config). c \<noteq> [] \<and> length c \<le> 25"
    by (auto simp: request_ids_def Let_def slice_def dest: set_range_step)
  have d: "request post ids_config = concat (map post (request_ids ids_config))"
    using fold_post [of post "\<lambda>i. slice ?ids i (i + 25)" _ "[]"]
    by (simp add: request_def request_ids_def Let_def comp_def)
  from a b c d show ?thesis by blast
qed

text \<open>
  The theorem at a list of 26 identifiers: two requests, the second one with the last
  identifier alone.
\<close>

theorem request_chunks_witness:
  "[''z''] \<in> set (request_ids ''a,b,c,d,e,f,g,h,i,j,k,l,m,n,o,p,q,r,s,t,u,v,w,x,y,z'')
   \<and> length [''z''] \<le> 25
   \<and> length (request_ids ''a,b,c,d,e,f,g,h,i,j,k,l,m,n,o,p,q,r,s,t,u,v,w,x,y,z'') = 2
   \<and> length (split CHR '','' ''a,b,c,d,e,f,g,h,i,j,k,l,m,n,o,p,q,r,s,t,u,v,w,x,y,z'') = 26"
proof -
  let ?cfg = "''a,b,c,d,e,f,g,h,i,j,k,l,m,n,o,p,q,r,s,t,u,v,w,x,y,z''"
  note T = request_chunks [of ?cfg "\<lambda>ids. ids"]
  have n: "length (split CHR '','' ?cfg) = 26"
    by simp
  have m: "[''z''] \<in> set (request_ids ?cfg)"
    by (simp add: request_ids_def Let_def slice_def range_step.simps)
  have l: "length (request_ids ?cfg) = 2"
    using T [THEN conjunct2, THEN conjunct1] n by simp
  have b: "[''z''] \<noteq> [] \<and> length [''z''] \<le> 25"
    using T [THEN conjunct2, THEN conjunct2, THEN conjunct1, rule_format, OF m] .
  from m b l n show ?thesis by blast
qed

section \<open>Validation failures in a batch\<close>

lemma those_as_dict: "those (map (as_dict \<circ> JDict) rs) = Some rs"
  by (induction rs) simp_all

lemma kienzler_loop_eq:
  "kienzler_loop validator src rs (items, errors) =
     (items @ List.map_filter (\<lambda>r. case validator r of Inr k \<Rightarrow> Some k | Inl e \<Rightarrow> None) rs,
      errors @ List.map_filter
        (\<lambda>r. case validator r of
                Inr k \<Rightarrow> None
              | Inl e \<Rightarrow> Some \<lparr> source_uid = src, parking_site_uid = dict_get r ''uid'',
                                message = (r, e) \<rparr>) rs)"
  by (induction rs arbitrary: items errors) (simp_all add: List.map_filter_simps split: sum.splits)

lemma bfrk_loop_eq:
  "bfrk_loop validator to_static src (map JDict rs) (inputs, errors) =
     Inr (inputs @ List.map_filter
            (\<lambda>r. case validator r of Inr b \<Rightarrow> Some (to_static b) | Inl e \<Rightarrow> None) rs,
          errors @ List.map_filter
            (\<lambda>r. case validator r of
                    Inr b \<Rightarrow> None
                  | Inl e \<Rightarrow> Some \<lparr> source_uid = src, parking_site_uid = dict_get r ''infraid'',
                                    message = (r, e) \<rparr>) rs)"
  by (induction rs arbitrary: inputs errors)
     (simp_all add: List.map_filter_simps bfrk_validator_def split: sum.splits)

lemma length_map_filter_split:
  "length (List.map_filter (\<lambda>r. case f r of Inr k \<Rightarrow> Some (g k) | Inl e \<Rightarrow> None) rs)
   + length (List.map_filter (\<lambda>r. case f r of Inr k \<Rightarrow> None | Inl e \<Rightarrow> Some (h r e)) rs)
   = length rs"
  by (induction rs) (simp_all add: List.map_filter_simps split: sum.splits)

text \<open>
  C4. For every batch of raw records, both loops run to the end of the batch and return
  both lists: the validated records (mapped, for BFRK) in the order of the batch, and one
  \<^verbatim>\<open>ImportParkingSiteException\<close> for each record that failed validation, in the order
  of the batch, carrying the source, the identifier read from the raw record, the raw
  record and the validation error. Each record of the batch is in exactly one of the two
  lists, so a failure never ends the loop.
\<close>

theorem validation_failures_accumulate:
  "get_kienzler_parking_sites validator src (map JDict rs) =
     Inr (List.map_filter (\<lambda>r. case validator r of Inr k \<Rightarrow> Some k | Inl e \<Rightarrow> None) rs,
          List.map_filter
            (\<lambda>r. case validator r of
                    Inr k \<Rightarrow> None
                  | Inl e \<Rightarrow> Some \<lparr> source_uid = src, parking_site_uid = dict_get r ''uid'',
                                    message = (r, e) \<rparr>) rs)
   \<and> bfrk_get_static_parking_sites validator' to_static src (JList (map JDict rs)) =
     Inr (List.map_filter
            (\<lambda>r. case validator' r of Inr b \<Rightarrow> Some (to_static b) | Inl e \<Rightarrow> None) rs,
          List.map_filter
            (\<lambda>r. case validator' r of
                    Inr b \<Rightarrow> None
                  | Inl e \<Rightarrow> Some \<lparr> source_uid = src, parking_site_uid = dict_get r ''infraid'',
                                    message = (r, e) \<rparr>) rs)
   \<and> (\<exists>items errors.
         get_kienzler_parking_sites validator src (map JDict rs) = Inr (items, errors)
         \<and> length items + length errors = length rs)
   \<and> (\<exists>inputs errors.
         bfrk_get_static_parking_sites validator' to_static src (JList (map JDict rs))
           = Inr (inputs, errors)
         \<and> length inputs + length errors = length rs)"
  by (simp add: length_map_filter_split get_kienzler_parking_sites_def kienzler_list_validator_def those_as_dict
      kienzler_loop_eq bfrk_get_static_parking_sites_def bfrk_loop_eq)

section \<open>Realtime data of the BFRK converter\<close>

text \<open>
  C10. For every converter instance, whatever its state, the realtime operation of the
  BFRK converter returns two empty lists: no realtime record and no error.
\<close>

theorem bfrk_realtime_empty: "bfrk_get_realtime_parking_sites self = ([], [])"
  by (simp add: bfrk_get_realtime_parking_sites_def)

section \<open>The overlay loop and the returned records\<close>

lemma index_by_uid_fold:
  "fold (\<lambda>a m. m(f a \<mapsto> a)) as m0 u = Some b \<Longrightarrow> b \<in> set as \<or> m0 u = Some b"
  by (induction as arbitrary: m0) (fastforce split: if_splits)+

lemma index_by_uid_range: "index_by_uid h as u = Some b \<Longrightarrow> b \<in> set as"
  unfolding index_by_uid_def by (drule index_by_uid_fold) simp

lemma index_by_uid_dom_fold:
  "dom (fold (\<lambda>a m. m(f a \<mapsto> a)) as m0) = dom m0 \<union> f ` set as"
  by (induction as arbitrary: m0) auto

lemma index_by_uid_dom: "dom (index_by_uid h as) = (\<lambda>a. uid (h ! a)) ` set as"
  unfolding index_by_uid_def by (simp add: index_by_uid_dom_fold)

lemma nth_alloc: "map (\<lambda>a. (h @ objs) ! a) [length h ..< length h + length objs] = objs"
  by (rule nth_equalityI) simp_all

lemma index_by_uid_alloc_dom:
  "dom (index_by_uid (h @ objs) [length h ..< length h + length objs]) = uid ` set objs"
proof -
  have "(\<lambda>a. uid ((h @ objs) ! a)) ` set [length h ..< length h + length objs]
        = uid ` set (map (\<lambda>a. (h @ objs) ! a) [length h ..< length h + length objs])"
    by (simp only: set_map image_image)
  then show ?thesis by (simp only: index_by_uid_dom nth_alloc)
qed

lemma extend_step_frame:
  assumes "\<And>u b. by_uid u = Some b \<Longrightarrow> b \<noteq> a"
  shows "snd (extend_step M by_uid i s) ! a = snd s ! a"
  using assms
  by (cases s) (auto simp: extend_step_def Let_def split: option.splits prod.splits)

lemma extend_fold_frame:
  assumes "\<And>u b. by_uid u = Some b \<Longrightarrow> b \<noteq> a"
  shows "snd (fold (extend_step M by_uid) is s) ! a = snd s ! a"
  using assms
proof (induction "is" arbitrary: s)
  case Nil
  show ?case by simp
next
  case (Cons i "is")
  have "snd (fold (extend_step M by_uid) is (extend_step M by_uid i s)) ! a
        = snd (extend_step M by_uid i s) ! a"
    using Cons.prems by (rule Cons.IH)
  also have "\<dots> = snd s ! a"
    using Cons.prems by (rule extend_step_frame)
  finally show ?case by simp
qed

lemma extend_step_miss:
  "by_uid (id_str M (ks ! i)) = None \<Longrightarrow> extend_step M by_uid i (ks, h) = (ks, h)"
  by (simp add: extend_step_def)

text \<open>What the method returns, in terms of the validated batch.\<close>

lemma kienzler_get_static_parking_sites_eq:
  "kienzler_get_static_parking_sites M use_geojson src public_url result_dicts geojson =
     (case get_kienzler_parking_sites (validate M) src result_dicts of
        Inl f \<Rightarrow> Inl f
      | Inr (ks, errs) \<Rightarrow>
          Inr (map (\<lambda>k. to_static_parking_site M k public_url) ks,
               if use_geojson then errs @ snd geojson else errs))"
proof (cases "get_kienzler_parking_sites (validate M) src result_dicts")
  case (Inl f)
  then show ?thesis by (simp add: kienzler_get_static_parking_sites_def)
next
  case (Inr r)
  obtain ks errs where r: "r = (ks, errs)" by (cases r)
  obtain gs gerrs where g: "geojson = (gs, gerrs)" by (cases geojson)
  let ?h1 = "map (\<lambda>k. to_static_parking_site M k public_url) ks"
  let ?h2 = "?h1 @ gs"
  let ?by_uid = "index_by_uid ?h2 [length ks ..< length ks + length gs]"
  let ?state = "fold (extend_step M ?by_uid) [0 ..< length ks] (ks, ?h2)"
  have frame: "snd ?state ! a = to_static_parking_site M (ks ! a) public_url"
    if "a < length ks" for a
  proof -
    have "snd ?state ! a = snd (ks, ?h2) ! a"
    proof (rule extend_fold_frame)
      fix u b
      assume "?by_uid u = Some b"
      then have "b \<in> set [length ks ..< length ks + length gs]"
        by (rule index_by_uid_range)
      with that show "b \<noteq> a" by simp
    qed
    with that show ?thesis by (simp add: nth_append)
  qed
  have after: "map (\<lambda>a. snd ?state ! a) [0 ..< length ks] = ?h1"
    by (rule nth_equalityI) (simp_all add: frame)
  have before: "map (\<lambda>a. ?h1 ! a) [0 ..< length ks] = ?h1"
    by (rule nth_equalityI) simp_all
  show ?thesis
  proof (cases use_geojson)
    case True
    with Inr r g after show ?thesis
      by (simp add: kienzler_get_static_parking_sites_def alloc_def Let_def)
  next
    case False
    with Inr r g before show ?thesis
      by (simp add: kienzler_get_static_parking_sites_def alloc_def)
  qed
qed

lemma batch_ok_validated:
  "get_kienzler_parking_sites (validate (example_methods url)) src batch_ok =
     Inr ([\<lparr> kienzler_id = ''u1'', kienzler_capacity = 10 \<rparr>,
           \<lparr> kienzler_id = ''u2'', kienzler_capacity = 20 \<rparr>,
           \<lparr> kienzler_id = ''u3'', kienzler_capacity = 30 \<rparr>,
           \<lparr> kienzler_id = ''u4'', kienzler_capacity = 40 \<rparr>,
           \<lparr> kienzler_id = ''u5'', kienzler_capacity = 50 \<rparr>], [])"
  by (simp add: get_kienzler_parking_sites_def kienzler_list_validator_def batch_ok_def
      raw_site_def example_methods_def KienzlerInput_validate_def validate_field_def
      StringValidator_def IntegerValidator_def)

text \<open>
  C1. Take the records that the method returns without the overlay, which are the records
  as they are before the merge step, and the records that it returns with the overlay,
  whatever the overlay holds and whatever the extension does to the objects it is given.
  The two lists have the same length, and a field that has a value in a record before the
  merge has that value in the record after it. (\<open>field\<close> is any reading of a record.)
\<close>

theorem merge_keeps_present_fields:
  assumes "kienzler_get_static_parking_sites M False src public_url result_dicts geojson0
             = Inr (before, errors0)"
      and "kienzler_get_static_parking_sites M True src public_url result_dicts geojson
             = Inr (after, errors)"
      and "i < length before"
      and "field (before ! i) = Some v"
  shows "length after = length before \<and> field (after ! i) = Some v"
proof -
  from assms(1) obtain ks errs
    where v: "get_kienzler_parking_sites (validate M) src result_dicts = Inr (ks, errs)"
      and b: "before = map (\<lambda>k. to_static_parking_site M k public_url) ks"
    by (auto simp: kienzler_get_static_parking_sites_eq split: sum.splits)
  from assms(2) v have "after = map (\<lambda>k. to_static_parking_site M k public_url) ks"
    by (simp add: kienzler_get_static_parking_sites_eq)
  with b assms(4) show ?thesis by simp
qed

text \<open>
  The theorem at the batch of five records with an overlay record for each: the capacity
  of the first record, 10 before the merge, is 10 after it, though the overlay record says
  0.
\<close>

theorem merge_keeps_present_fields_witness:
  "capacity (overlay_site ''u1'' ''A'') = Some 0
   \<and> (\<exists>before after.
         kienzler_get_static_parking_sites (example_methods ''url'') False ''kienzler'' ''url''
           batch_ok ([], []) = Inr (before, [])
         \<and> kienzler_get_static_parking_sites (example_methods ''url'') True ''kienzler'' ''url''
             batch_ok overlay_all = Inr (after, [])
         \<and> 0 < length before
         \<and> capacity (before ! 0) = Some 10
         \<and> length after = length before
         \<and> capacity (after ! 0) = Some 10)"
proof -
  let ?M = "example_methods ''url''"
  let ?sites = "map (\<lambda>k. to_static_parking_site ?M k ''url'')
      [\<lparr> kienzler_id = ''u1'', kienzler_capacity = 10 \<rparr>,
       \<lparr> kienzler_id = ''u2'', kienzler_capacity = 20 \<rparr>,
       \<lparr> kienzler_id = ''u3'', kienzler_capacity = 30 \<rparr>,
       \<lparr> kienzler_id = ''u4'', kienzler_capacity = 40 \<rparr>,
       \<lparr> kienzler_id = ''u5'', kienzler_capacity = 50 \<rparr>]"
  have h1: "kienzler_get_static_parking_sites ?M False ''kienzler'' ''url'' batch_ok ([], [])
              = Inr (?sites, [])"
    by (simp add: kienzler_get_static_parking_sites_eq batch_ok_validated)
  have h2: "kienzler_get_static_parking_sites ?M True ''kienzler'' ''url'' batch_ok overlay_all
              = Inr (?sites, [])"
    by (simp add: kienzler_get_static_parking_sites_eq batch_ok_validated overlay_all_def)
  have h3: "0 < length ?sites" by simp
  have h4: "capacity (?sites ! 0) = Some 10"
    by (simp add: example_methods_def example_to_static_parking_site_def)
  have o: "capacity (overlay_site ''u1'' ''A'') = Some 0"
    by (simp add: overlay_site_def)
  note T = merge_keeps_present_fields [where field = capacity and i = 0 and v = 10,
      OF h1 h2 h3 h4]
  from T o h1 h2 h3 h4 show ?thesis by blast
qed

text \<open>
  C6. Let the \<open>i\<close>-th validated record have an identifier that no overlay record has.
  Then its round of the loop changes nothing, neither the validated records nor any
  object of the store, whatever the store holds (the index is the one built from the
  overlay records, at whatever addresses they were allocated). The method returns, the
  \<open>i\<close>-th returned record is the record built from the \<open>i\<close>-th validated record, and
  the errors are those of the validation followed by those of the overlay load: the miss
  adds none.
\<close>

theorem lookup_miss_passes_through:
  assumes "get_kienzler_parking_sites (validate M) src result_dicts = Inr (ks, errs)"
      and "i < length ks"
      and "id_str M (ks ! i) \<notin> uid ` set (fst geojson)"
  shows "(\<exists>after.
            kienzler_get_static_parking_sites M True src public_url result_dicts geojson
              = Inr (after, errs @ snd geojson)
            \<and> length after = length ks
            \<and> after ! i = to_static_parking_site M (ks ! i) public_url)
         \<and> extend_step M
              (index_by_uid (h0 @ fst geojson)
                 [length h0 ..< length h0 + length (fst geojson)]) i (ks, h)
             = (ks, h)"
proof -
  let ?by_uid = "index_by_uid (h0 @ fst geojson) [length h0 ..< length h0 + length (fst geojson)]"
  from assms(3) have "id_str M (ks ! i) \<notin> dom ?by_uid"
    by (simp add: index_by_uid_alloc_dom)
  then have "?by_uid (id_str M (ks ! i)) = None"
    by (simp add: domIff)
  then have step: "extend_step M ?by_uid i (ks, h) = (ks, h)"
    by (rule extend_step_miss)
  from assms(1,2) have
    "kienzler_get_static_parking_sites M True src public_url result_dicts geojson
       = Inr (map (\<lambda>k. to_static_parking_site M k public_url) ks, errs @ snd geojson)
     \<and> length (map (\<lambda>k. to_static_parking_site M k public_url) ks) = length ks
     \<and> map (\<lambda>k. to_static_parking_site M k public_url) ks ! i
         = to_static_parking_site M (ks ! i) public_url"
    by (simp add: kienzler_get_static_parking_sites_eq)
  with step show ?thesis by blast
qed

text \<open>
  The theorem at the batch of five records with an overlay that knows only a sixth site:
  the first record comes back as it was built, with no name, and there is no error.
\<close>

theorem lookup_miss_passes_through_witness:
  "''u1'' \<notin> uid ` set [overlay_site ''u6'' ''F'']
   \<and> (\<exists>after.
         kienzler_get_static_parking_sites (example_methods ''url'') True ''kienzler'' ''url''
           batch_ok ([overlay_site ''u6'' ''F''], []) = Inr (after, [])
         \<and> length after = 5
         \<and> after ! 0
             = example_to_static_parking_site \<lparr> kienzler_id = ''u1'', kienzler_capacity = 10 \<rparr> ''url''
         \<and> name (after ! 0) = None)"
proof -
  let ?M = "example_methods ''url''"
  let ?ks = "[\<lparr> kienzler_id = ''u1'', kienzler_capacity = 10 \<rparr>,
       \<lparr> kienzler_id = ''u2'', kienzler_capacity = 20 \<rparr>,
       \<lparr> kienzler_id = ''u3'', kienzler_capacity = 30 \<rparr>,
       \<lparr> kienzler_id = ''u4'', kienzler_capacity = 40 \<rparr>,
       \<lparr> kienzler_id = ''u5'', kienzler_capacity = 50 \<rparr>]"
  let ?geo = "([overlay_site ''u6'' ''F''], []) :: StaticParkingSiteInput list \<times> ImportParkingSiteException list"
  have h1: "get_kienzler_parking_sites (validate ?M) ''kienzler'' batch_ok = Inr (?ks, [])"
    by (rule batch_ok_validated)
  have h2: "0 < length ?ks" by simp
  have m: "''u1'' \<notin> uid ` set [overlay_site ''u6'' ''F'']"
    by (simp add: overlay_site_def)
  have h3: "id_str ?M (?ks ! 0) \<notin> uid ` set (fst ?geo)"
    using m by (simp add: example_methods_def)
  from lookup_miss_passes_through [OF h1 h2 h3, of "''url''" "[]" "[]", THEN conjunct1]
  obtain after where
    a: "kienzler_get_static_parking_sites ?M True ''kienzler'' ''url'' batch_ok ?geo
          = Inr (after, [] @ snd ?geo)"
    and l: "length after = length ?ks"
    and e: "after ! 0 = to_static_parking_site ?M (?ks ! 0) ''url''"
    by blast
  from e have e': "after ! 0
      = example_to_static_parking_site \<lparr> kienzler_id = ''u1'', kienzler_capacity = 10 \<rparr> ''url''"
    by (simp add: example_methods_def)
  then have n: "name (after ! 0) = None"
    by (simp add: example_to_static_parking_site_def)
  from a have a': "kienzler_get_static_parking_sites ?M True ''kienzler'' ''url'' batch_ok ?geo
          = Inr (after, [])" by simp
  from l have l': "length after = 5" by simp
  from m a' l' e' n show ?thesis by blast
qed

section \<open>Scenarios\<close>

text \<open>
  C2, at the batch of five well-formed records with an overlay record for each of their
  identifiers. The method returns five records and no error. The description and the name
  of each returned record are unset, as they were before the merge, though each overlay
  record has both, and the merge of the spec would have filled them in.
\<close>

theorem overlay_not_applied:
  "kienzler_get_static_parking_sites (example_methods ''url'') True ''kienzler'' ''url''
     batch_ok overlay_all
   = Inr (map (\<lambda>k. example_to_static_parking_site k ''url'')
            [\<lparr> kienzler_id = ''u1'', kienzler_capacity = 10 \<rparr>,
             \<lparr> kienzler_id = ''u2'', kienzler_capacity = 20 \<rparr>,
             \<lparr> kienzler_id = ''u3'', kienzler_capacity = 30 \<rparr>,
             \<lparr> kienzler_id = ''u4'', kienzler_capacity = 40 \<rparr>,
             \<lparr> kienzler_id = ''u5'', kienzler_capacity = 50 \<rparr>], [])
   \<and> description (example_to_static_parking_site k ''url'') = None
   \<and> name (example_to_static_parking_site k ''url'') = None
   \<and> map uid (fst overlay_all) = [''u1'', ''u2'', ''u3'', ''u4'', ''u5'']
   \<and> map description (fst overlay_all)
       = [Some ''Bike boxes'', Some ''Bike boxes'', Some ''Bike boxes'', Some ''Bike boxes'',
          Some ''Bike boxes'']
   \<and> description (merge (example_to_static_parking_site k ''url'') (overlay_site i n))
       = Some ''Bike boxes''"
proof -
  have sel: "to_static_parking_site (example_methods ''url'') = example_to_static_parking_site"
    by (simp add: example_methods_def)
  have r: "kienzler_get_static_parking_sites (example_methods ''url'') True ''kienzler'' ''url''
      batch_ok overlay_all
    = Inr (map (\<lambda>k. example_to_static_parking_site k ''url'')
            [\<lparr> kienzler_id = ''u1'', kienzler_capacity = 10 \<rparr>,
             \<lparr> kienzler_id = ''u2'', kienzler_capacity = 20 \<rparr>,
             \<lparr> kienzler_id = ''u3'', kienzler_capacity = 30 \<rparr>,
             \<lparr> kienzler_id = ''u4'', kienzler_capacity = 40 \<rparr>,
             \<lparr> kienzler_id = ''u5'', kienzler_capacity = 50 \<rparr>], [])"
    by (simp add: kienzler_get_static_parking_sites_eq batch_ok_validated sel)
       (simp add: overlay_all_def)
  have d: "description (example_to_static_parking_site k ''url'') = None"
    and n: "name (example_to_static_parking_site k ''url'') = None"
    by (simp_all add: example_to_static_parking_site_def)
  have u: "map uid (fst overlay_all) = [''u1'', ''u2'', ''u3'', ''u4'', ''u5'']"
    and o: "map description (fst overlay_all)
       = [Some ''Bike boxes'', Some ''Bike boxes'', Some ''Bike boxes'', Some ''Bike boxes'',
          Some ''Bike boxes'']"
    by (simp_all add: overlay_all_def overlay_site_def)
  have m: "description (merge (example_to_static_parking_site k ''url'') (overlay_site i n))
       = Some ''Bike boxes''"
    by (simp add: merge_def fill_def example_to_static_parking_site_def overlay_site_def)
  from r d n u o m show ?thesis by (simp only: simp_thms)
qed

text \<open>
  C5, at the batch of five records whose third record has a string in its numeric field.
  Four records are validated and there is one error, for the third record. The identifier
  of that record is under the key \<^verbatim>\<open>id\<close>; the error reads the key \<^verbatim>\<open>uid\<close>, which the
  record does not have, and carries \<^verbatim>\<open>None\<close>.
\<close>

theorem kienzler_error_without_identifier:
  "get_kienzler_parking_sites KienzlerInput_validate ''kienzler'' batch_malformed
   = Inr ([\<lparr> kienzler_id = ''u1'', kienzler_capacity = 10 \<rparr>,
           \<lparr> kienzler_id = ''u2'', kienzler_capacity = 20 \<rparr>,
           \<lparr> kienzler_id = ''u4'', kienzler_capacity = 40 \<rparr>,
           \<lparr> kienzler_id = ''u5'', kienzler_capacity = 50 \<rparr>],
          [\<lparr> source_uid = ''kienzler'', parking_site_uid = JNull,
              message = ([(''id'', JStr ''u3''), (''capacity'', JStr ''thirty'')],
                         [(''capacity'', ''invalid_type'')]) \<rparr>])
   \<and> batch_malformed ! 2 = JDict [(''id'', JStr ''u3''), (''capacity'', JStr ''thirty'')]
   \<and> dict_get [(''id'', JStr ''u3''), (''capacity'', JStr ''thirty'')] ''id'' = JStr ''u3''
   \<and> dict_get [(''id'', JStr ''u3''), (''capacity'', JStr ''thirty'')] ''uid'' = JNull"
  by (simp add: get_kienzler_parking_sites_def kienzler_list_validator_def batch_malformed_def
      raw_site_def KienzlerInput_validate_def validate_field_def StringValidator_def
      IntegerValidator_def field_error_def dict_get_def)

section \<open>Quantization of the reprojected coordinates\<close>















end
